theory Spec2Isabelle
  imports Main "HOL-Library.Sublist" "HOL-Library.Word"
begin

section \<open>Python strings\<close>

text \<open>
  A Python \<open>str\<close> is modelled as a \<open>string\<close>: one \<open>char\<close> per code point, for the code
  points below 256. On these, the operations below compute what Python's do.
\<close>

text \<open>\<open>s.startswith(p)\<close>\<close>

definition startswith :: "string \<Rightarrow> string \<Rightarrow> bool" where
  "startswith s p = prefix p s"

text \<open>\<open>sub in s\<close>: \<open>sub\<close> occurs in \<open>s\<close> as a contiguous block.\<close>

fun contains :: "string \<Rightarrow> string \<Rightarrow> bool" where
  "contains sub [] = (sub = [])"
| "contains sub (c # cs) = (prefix sub (c # cs) \<or> contains sub cs)"

text \<open>
  \<open>s.replace(old, new)\<close> for a non-empty \<open>old\<close>: the occurrences are found from the left
  and do not overlap. With an empty \<open>old\<close>, Python puts \<open>new\<close> before every character and at
  the end.
\<close>

fun replace_scan :: "string \<Rightarrow> string \<Rightarrow> string \<Rightarrow> string" where
  "replace_scan old new [] = []"
| "replace_scan old new (c # cs) =
     (if prefix old (c # cs) then new @ replace_scan old new (drop (length old - 1) cs)
      else c # replace_scan old new cs)"

definition py_replace :: "string \<Rightarrow> string \<Rightarrow> string \<Rightarrow> string" where
  "py_replace s old new =
     (if old = [] then new @ concat (map (\<lambda>c. c # new) s) else replace_scan old new s)"

text \<open>\<open>s.strip()\<close> and \<open>s.rstrip('/')\<close>. The white space of \<open>str.strip\<close> below 256.\<close>

definition is_space :: "char \<Rightarrow> bool" where
  "is_space c = (of_char c \<in> {9, 10, 11, 12, 13, 28, 29, 30, 31, 32, 133, 160 :: nat})"

definition lstrip :: "string \<Rightarrow> string" where
  "lstrip s = dropWhile is_space s"

definition rstrip :: "string \<Rightarrow> string" where
  "rstrip s = rev (dropWhile is_space (rev s))"

definition strip :: "string \<Rightarrow> string" where
  "strip s = rstrip (lstrip s)"

definition rstrip_slash :: "string \<Rightarrow> string" where
  "rstrip_slash s = rev (dropWhile (\<lambda>c. c = CHR ''/'') (rev s))"

text \<open>\<open>str(n)\<close> for a natural number, as an f-string prints it.\<close>

definition digit_char :: "nat \<Rightarrow> char" where
  "digit_char d = ''0123456789'' ! d"

fun str_of_nat :: "nat \<Rightarrow> string" where
  "str_of_nat n =
     (if n < 10 then [digit_char n] else str_of_nat (n div 10) @ [digit_char (n mod 10)])"

declare str_of_nat.simps [simp del]

text \<open>
  \<open>re.sub(r'31 December \d{4}', repl, s)\<close>. The pattern has the fixed length 16: the twelve
  characters \<open>31 December \<close> and four decimal digits (below code point 256 the class
  \<open>\d\<close> is \<open>0\<close> to \<open>9\<close>). Matches are taken from the left and do not overlap. The
  replacement is inserted as it is: the one the program builds holds no backslash.
\<close>

definition is_digit :: "char \<Rightarrow> bool" where
  "is_digit c = (c \<in> set ''0123456789'')"

definition date_match :: "string \<Rightarrow> bool" where
  "date_match s =
     (prefix ''31 December '' s \<and> 16 \<le> length s \<and> list_all is_digit (take 4 (drop 12 s)))"

fun re_sub_date :: "string \<Rightarrow> string \<Rightarrow> string" where
  "re_sub_date repl [] = []"
| "re_sub_date repl (c # cs) =
     (if date_match (c # cs) then repl @ re_sub_date repl (drop 15 cs)
      else c # re_sub_date repl cs)"

section \<open>The slide document\<close>

text \<open>
  What the document library hands to \<open>modify_pptx_template\<close>: a presentation is its slides,
  a slide its shapes, and a shape has a text frame or none (\<open>hasattr(shape, "text_frame")\<close>).
  A text frame is a list of paragraphs; a paragraph holds runs, line breaks and fields, of
  which \<open>paragraph.runs\<close> yields the runs only. A run's text is a plain attribute here: what
  is assigned is what is read back.
\<close>

datatype content = Run string | LineBreak | Field string

type_synonym para = "content list"

datatype shape = Shape (text_frame: "para list option")

type_synonym slide = "shape list"

type_synonym presentation = "slide list"

text \<open>
  \<open>shape.text\<close>: the paragraphs' texts joined by a newline; a paragraph's text is the texts
  of its runs, line breaks (a vertical tab) and fields, in order.
\<close>

fun content_text :: "content \<Rightarrow> string" where
  "content_text (Run s) = s"
| "content_text LineBreak = [CHR 0x0B]"
| "content_text (Field s) = s"

definition paragraph_text :: "para \<Rightarrow> string" where
  "paragraph_text p = concat (map content_text p)"

fun join_lines :: "string list \<Rightarrow> string" where
  "join_lines [] = []"
| "join_lines [l] = l"
| "join_lines (l # ls) = l @ CHR 0x0A # join_lines ls"

definition frame_text :: "para list \<Rightarrow> string" where
  "frame_text ps = join_lines (map paragraph_text ps)"

section \<open>The template rewriter\<close>

text \<open>\<open>valid_through_date = f"31 December {current_year}"\<close>\<close>

definition valid_through_date :: "nat \<Rightarrow> string" where
  "valid_through_date current_year = ''31 December '' @ str_of_nat current_year"

text \<open>
  The two placeholder substitutions of the loop body, each behind its \<open>in\<close> test.
\<close>

definition substitute_placeholders :: "string \<Rightarrow> string \<Rightarrow> string \<Rightarrow> string" where
  "substitute_placeholders company_name tier text =
     (let t1 = (if contains ''<Company>'' text
                then py_replace text ''<Company>'' company_name else text);
          t2 = (if contains ''<Tier>'' t1 then py_replace t1 ''<Tier>'' tier else t1)
      in t2)"

text \<open>
  The body of the innermost loop, for one run. \<open>shape_text\<close> gives \<open>shape.text\<close> as a
  function of this run's current text: the program reads \<open>shape.text\<close> after the two
  substitutions have been stored in the run.
\<close>

definition rewrite_run ::
  "string \<Rightarrow> string \<Rightarrow> string \<Rightarrow> (string \<Rightarrow> string) \<Rightarrow> string \<Rightarrow> string" where
  "rewrite_run company_name tier date shape_text text =
     (let t2 = substitute_placeholders company_name tier text
      in if contains ''31 December'' t2 \<and> contains ''Valid through'' (shape_text t2)
         then re_sub_date date t2 else t2)"

text \<open>
  \<open>for run in paragraph.runs\<close>. The paragraphs before this one (\<open>pre\<close>) and the contents
  before this run (\<open>seen\<close>) have been rewritten already; the rest of the paragraph and the
  paragraphs after it (\<open>post\<close>) still have their old text.
\<close>

fun process_runs ::
  "string \<Rightarrow> string \<Rightarrow> string \<Rightarrow> para list \<Rightarrow> content list \<Rightarrow> content list
     \<Rightarrow> para list \<Rightarrow> content list" where
  "process_runs company_name tier date pre seen [] post = seen"
| "process_runs company_name tier date pre seen (Run s # rest) post =
     process_runs company_name tier date pre
       (seen @ [Run (rewrite_run company_name tier date
                       (\<lambda>x. frame_text (pre @ [seen @ Run x # rest] @ post)) s)])
       rest post"
| "process_runs company_name tier date pre seen (LineBreak # rest) post =
     process_runs company_name tier date pre (seen @ [LineBreak]) rest post"
| "process_runs company_name tier date pre seen (Field s # rest) post =
     process_runs company_name tier date pre (seen @ [Field s]) rest post"

text \<open>\<open>for paragraph in shape.text_frame.paragraphs\<close>\<close>

fun process_paragraphs ::
  "string \<Rightarrow> string \<Rightarrow> string \<Rightarrow> para list \<Rightarrow> para list \<Rightarrow> para list" where
  "process_paragraphs company_name tier date pre [] = pre"
| "process_paragraphs company_name tier date pre (p # post) =
     process_paragraphs company_name tier date
       (pre @ [process_runs company_name tier date pre [] p post]) post"

definition process_shape :: "string \<Rightarrow> string \<Rightarrow> string \<Rightarrow> shape \<Rightarrow> shape" where
  "process_shape company_name tier date sh =
     (case text_frame sh of
        None \<Rightarrow> sh
      | Some ps \<Rightarrow> Shape (Some (process_paragraphs company_name tier date [] ps)))"

text \<open>\<open>for slide in prs.slides: for shape in slide.shapes\<close>\<close>

definition process_slides :: "string \<Rightarrow> string \<Rightarrow> string \<Rightarrow> presentation \<Rightarrow> presentation" where
  "process_slides company_name tier date prs =
     map (map (process_shape company_name tier date)) prs"

section \<open>Bytes\<close>

type_synonym byte = "8 word"

type_synonym bytes = "byte list"

text \<open>\<open>s.encode('utf-8')\<close> on code points below 256: one byte below 128, two from there on.\<close>

definition utf8_char :: "char \<Rightarrow> bytes" where
  "utf8_char c =
     (let n = (of_char c :: nat)
      in if n < 128 then [of_nat n] else [of_nat (192 + n div 64), of_nat (128 + n mod 64)])"

definition encode_utf8 :: "string \<Rightarrow> bytes" where
  "encode_utf8 s = concat (map utf8_char s)"

text \<open>\<open>base64.b64encode(b).decode('utf-8')\<close>: the standard alphabet, padded with \<open>=\<close>.\<close>

definition b64_char :: "nat \<Rightarrow> char" where
  "b64_char n = ''ABCDEFGHIJKLMNOPQRSTUVWXYZabcdefghijklmnopqrstuvwxyz0123456789+/'' ! n"

fun b64encode :: "bytes \<Rightarrow> string" where
  "b64encode [] = []"
| "b64encode [a] =
     (let n = unat a
      in [b64_char (n div 4), b64_char (n mod 4 * 16), CHR ''='', CHR ''=''])"
| "b64encode [a, b] =
     (let n = unat a * 256 + unat b
      in [b64_char (n div 1024), b64_char (n div 16 mod 64), b64_char (n mod 16 * 4), CHR ''=''])"
| "b64encode (a # b # c # rest) =
     (let n = unat a * 65536 + unat b * 256 + unat c
      in [b64_char (n div 262144), b64_char (n div 4096 mod 64), b64_char (n div 64 mod 64),
          b64_char (n mod 64)] @ b64encode rest)"

section \<open>Decoded JSON and Python's operations on it\<close>

text \<open>
  The value \<open>response.json()\<close> returns, and the value passed as \<open>json=\<close> to a POST. An
  object is the list of the dict's items; a number is an integer here.
\<close>

datatype json =
    JNull
  | JBool bool
  | JNum int
  | JStr string
  | JArr "json list"
  | JObj "(string \<times> json) list"

text \<open>
  An exception with the text \<open>str(e)\<close> gives; an \<open>HTTPError\<close> also carries the status code
  of its response.
\<close>

datatype py_exception =
    ValueError string
  | HTTPError nat string
  | KeyError string
  | IndexError string
  | TypeError string
  | AttributeError string
  | Timeout string
  | ConnectionError string
  | OtherException string

fun py_str :: "py_exception \<Rightarrow> string" where
  "py_str (ValueError m) = m"
| "py_str (HTTPError status m) = m"
| "py_str (KeyError m) = m"
| "py_str (IndexError m) = m"
| "py_str (TypeError m) = m"
| "py_str (AttributeError m) = m"
| "py_str (Timeout m) = m"
| "py_str (ConnectionError m) = m"
| "py_str (OtherException m) = m"

definition quoted :: "string \<Rightarrow> string" where
  "quoted s = [CHR 0x27] @ s @ [CHR 0x27]"

fun type_name :: "json \<Rightarrow> string" where
  "type_name JNull = ''NoneType''"
| "type_name (JBool b) = ''bool''"
| "type_name (JNum n) = ''int''"
| "type_name (JStr s) = ''str''"
| "type_name (JArr xs) = ''list''"
| "type_name (JObj kvs) = ''dict''"

text \<open>The truth value of \<open>if x:\<close> and \<open>not x\<close>.\<close>

fun truthy :: "json \<Rightarrow> bool" where
  "truthy JNull = False"
| "truthy (JBool b) = b"
| "truthy (JNum n) = (n \<noteq> 0)"
| "truthy (JStr s) = (s \<noteq> [])"
| "truthy (JArr xs) = (xs \<noteq> [])"
| "truthy (JObj kvs) = (kvs \<noteq> [])"

text \<open>\<open>x.get(k)\<close>: \<open>None\<close> for a missing key; only a dict has the method.\<close>

fun dict_get :: "json \<Rightarrow> string \<Rightarrow> py_exception + json" where
  "dict_get (JObj kvs) k = Inr (case map_of kvs k of None \<Rightarrow> JNull | Some v \<Rightarrow> v)"
| "dict_get x k =
     Inl (AttributeError (quoted (type_name x) @ '' object has no attribute '' @ quoted ''get''))"

text \<open>\<open>x[k]\<close> for a string key \<open>k\<close>.\<close>

fun getitem_key :: "json \<Rightarrow> string \<Rightarrow> py_exception + json" where
  "getitem_key (JObj kvs) k =
     (case map_of kvs k of None \<Rightarrow> Inl (KeyError (quoted k)) | Some v \<Rightarrow> Inr v)"
| "getitem_key (JArr xs) k = Inl (TypeError ''list indices must be integers or slices, not str'')"
| "getitem_key (JStr s) k = Inl (TypeError (''string indices must be integers, not '' @ quoted ''str''))"
| "getitem_key x k = Inl (TypeError (quoted (type_name x) @ '' object is not subscriptable''))"

text \<open>\<open>x[0]\<close>. The keys of a decoded JSON object are strings, so \<open>0\<close> is never one.\<close>

fun getitem_0 :: "json \<Rightarrow> py_exception + json" where
  "getitem_0 (JArr []) = Inl (IndexError ''list index out of range'')"
| "getitem_0 (JArr (x # xs)) = Inr x"
| "getitem_0 (JStr []) = Inl (IndexError ''string index out of range'')"
| "getitem_0 (JStr (c # cs)) = Inr (JStr [c])"
| "getitem_0 (JObj kvs) = Inl (KeyError ''0'')"
| "getitem_0 x = Inl (TypeError (quoted (type_name x) @ '' object is not subscriptable''))"

section \<open>The outside world\<close>

text \<open>
  The credentials of the connection, an HTTP response as the program reads it, and the
  collaborators the program calls: the credential store, the HTTP client, the document
  library and the clock. Each call either raises or returns. The answer to an HTTP request
  is a function of the request. \<open>str_of_json\<close> is Python's \<open>str\<close> on a decoded JSON value
  that is not a string. Logging and printing are left out, as are the constant
  \<open>timeout\<close> and \<open>stream\<close> arguments.
\<close>

record creds =
  url :: string
  access_token :: string

record response =
  status_code :: nat
  reason :: string
  response_url :: string
  response_content :: "py_exception + bytes"
  response_json :: "py_exception + json"

type_synonym headers = "(string \<times> string) list"

record env =
  oauth2_auth_code :: "string \<Rightarrow> py_exception + creds"
  http_get :: "string \<Rightarrow> headers \<Rightarrow> (string \<times> string) list \<Rightarrow> py_exception + response"
  http_post :: "string \<Rightarrow> headers \<Rightarrow> json \<Rightarrow> py_exception + response"
  load_presentation :: "bytes \<Rightarrow> py_exception + presentation"
  save_presentation :: "presentation \<Rightarrow> py_exception + bytes"
  current_year :: nat
  str_of_json :: "json \<Rightarrow> string"

text \<open>The requests a run sends, in order.\<close>

datatype request =
    Get string headers "(string \<times> string) list"
  | Post string headers json

text \<open>
  A step of the program takes the requests sent so far and gives its outcome, an exception
  or a value, with the requests sent by then.
\<close>

type_synonym 'a io = "request list \<Rightarrow> (py_exception + 'a) \<times> request list"

definition io_return :: "'a \<Rightarrow> 'a io" where
  "io_return x = (\<lambda>tr. (Inr x, tr))"

definition io_raise :: "py_exception \<Rightarrow> 'a io" where
  "io_raise e = (\<lambda>tr. (Inl e, tr))"

definition io_lift :: "py_exception + 'a \<Rightarrow> 'a io" where
  "io_lift r = (\<lambda>tr. (r, tr))"

definition io_bind :: "'a io \<Rightarrow> ('a \<Rightarrow> 'b io) \<Rightarrow> 'b io" where
  "io_bind m f =
     (\<lambda>tr. case m tr of (Inl e, tr') \<Rightarrow> (Inl e, tr') | (Inr x, tr') \<Rightarrow> f x tr')"

definition requests_get :: "env \<Rightarrow> string \<Rightarrow> headers \<Rightarrow> (string \<times> string) list \<Rightarrow> response io" where
  "requests_get env u hs params = (\<lambda>tr. (http_get env u hs params, tr @ [Get u hs params]))"

definition requests_post :: "env \<Rightarrow> string \<Rightarrow> headers \<Rightarrow> json \<Rightarrow> response io" where
  "requests_post env u hs payload = (\<lambda>tr. (http_post env u hs payload, tr @ [Post u hs payload]))"

text \<open>
  \<open>response.raise_for_status()\<close> of the HTTP client: it raises for the status codes 400 to
  599 and for no other.
\<close>

definition raise_for_status :: "response \<Rightarrow> py_exception + unit" where
  "raise_for_status r =
     (if 400 \<le> status_code r \<and> status_code r < 500
      then Inl (HTTPError (status_code r)
                  (str_of_nat (status_code r) @ '' Client Error: '' @ reason r
                   @ '' for url: '' @ response_url r))
      else if 500 \<le> status_code r \<and> status_code r < 600
      then Inl (HTTPError (status_code r)
                  (str_of_nat (status_code r) @ '' Server Error: '' @ reason r
                   @ '' for url: '' @ response_url r))
      else Inr ())"

text \<open>An f-string field \<open>{v}\<close> for a decoded JSON value.\<close>

definition format_value :: "env \<Rightarrow> json \<Rightarrow> string" where
  "format_value env v = (case v of JStr s \<Rightarrow> s | _ \<Rightarrow> str_of_json env v)"

section \<open>The tools\<close>

definition SALESFORCE_APP_ID :: string where
  "SALESFORCE_APP_ID = ''salesforce-wxo''"

definition SALESFORCE_API_VERSION :: string where
  "SALESFORCE_API_VERSION = ''v58.0''"

text \<open>
  The three input models: \<open>salesforce_simple\<close> takes a file id, \<open>salesforce_replace\<close> adds
  the company name and the tier, \<open>salesforce_upload\<close> adds the upload flag and the title.
\<close>

record simple_input =
  file_id :: string

record replace_input = simple_input +
  company_name :: string
  tier :: string

record upload_input = replace_input +
  upload_back_to_salesforce :: bool
  title :: string

subsection \<open>Resolving the identifier\<close>

definition auth_headers :: "string \<Rightarrow> headers" where
  "auth_headers token = [(''Authorization'', ''Bearer '' @ token), (''Accept'', ''*/*'')]"

definition query_url :: "string \<Rightarrow> string" where
  "query_url base_url = base_url @ ''/services/data/'' @ SALESFORCE_API_VERSION @ ''/query''"

definition latest_version_query :: "string \<Rightarrow> string" where
  "latest_version_query fid =
     ''SELECT Id FROM ContentVersion WHERE ContentDocumentId = '' @ quoted fid
     @ '' AND IsLatest = true''"

definition version_data_url :: "string \<Rightarrow> string \<Rightarrow> string" where
  "version_data_url base_url fid =
     base_url @ ''/services/data/'' @ SALESFORCE_API_VERSION @ ''/sobjects/ContentVersion/''
     @ fid @ ''/VersionData''"

definition attachment_body_url :: "string \<Rightarrow> string \<Rightarrow> string" where
  "attachment_body_url base_url fid =
     base_url @ ''/services/data/'' @ SALESFORCE_API_VERSION @ ''/sobjects/Attachment/''
     @ fid @ ''/Body''"

definition unknown_format_message :: "string \<Rightarrow> string" where
  "unknown_format_message fid =
     ''Unknown Salesforce ID format: '' @ fid
     @ ''. Expected ContentDocument (069), ContentVersion (068), or Attachment (00P)''"

definition not_found_message :: "string \<Rightarrow> string" where
  "not_found_message fid = ''No file found with ContentDocument ID: '' @ fid"

text \<open>
  The \<open>if file_id.startswith('069') ... elif ... else\<close> chain, the same in the three tools:
  from the stripped file id to the download address.
\<close>

definition resolve_download_url :: "env \<Rightarrow> string \<Rightarrow> headers \<Rightarrow> string \<Rightarrow> string io" where
  "resolve_download_url env base_url hs fid =
     (if startswith fid ''069'' then
        io_bind (requests_get env (query_url base_url) hs [(''q'', latest_version_query fid)])
          (\<lambda>query_response.
        io_bind (io_lift (raise_for_status query_response)) (\<lambda>_.
        io_bind (io_lift (response_json query_response)) (\<lambda>query_data.
        io_bind (io_lift (dict_get query_data ''records'')) (\<lambda>records.
        if \<not> truthy records then io_raise (ValueError (not_found_message fid))
        else
          io_bind (io_lift (getitem_key query_data ''records'')) (\<lambda>records.
          io_bind (io_lift (getitem_0 records)) (\<lambda>record0.
          io_bind (io_lift (getitem_key record0 ''Id'')) (\<lambda>content_version_id.
          io_return (version_data_url base_url (format_value env content_version_id)))))))))
      else if startswith fid ''068'' then io_return (version_data_url base_url fid)
      else if startswith fid ''00P'' then io_return (attachment_body_url base_url fid)
      else io_raise (ValueError (unknown_format_message fid)))"

subsection \<open>Retrieving the file\<close>

text \<open>
  The streamed GET, \<open>raise_for_status\<close> and \<open>response.content\<close>.
\<close>

definition download :: "env \<Rightarrow> string \<Rightarrow> headers \<Rightarrow> bytes io" where
  "download env download_url hs =
     io_bind (requests_get env download_url hs []) (\<lambda>response.
     io_bind (io_lift (raise_for_status response)) (\<lambda>_.
     io_lift (response_content response)))"

subsection \<open>Rewriting the template\<close>

text \<open>
  \<open>modify_pptx_template\<close>: parse, rewrite every run, save. Its \<open>except\<close> clause logs and
  raises the exception again.
\<close>

definition modify_pptx_template :: "env \<Rightarrow> bytes \<Rightarrow> string \<Rightarrow> string \<Rightarrow> py_exception + bytes" where
  "modify_pptx_template env file_content company tr =
     (case load_presentation env file_content of
        Inl e \<Rightarrow> Inl e
      | Inr prs \<Rightarrow>
          save_presentation env
            (process_slides company tr (valid_through_date (current_year env)) prs))"

subsection \<open>Uploading\<close>

definition upload_url :: "string \<Rightarrow> string" where
  "upload_url base_url =
     base_url @ ''/services/data/'' @ SALESFORCE_API_VERSION @ ''/sobjects/ContentVersion''"

definition upload_headers :: "string \<Rightarrow> headers" where
  "upload_headers token =
     [(''Authorization'', ''Bearer '' @ token), (''Content-Type'', ''application/json'')]"

text \<open>The \<open>payload\<close> dict, with the link added \<open>if original_content_document_id:\<close>.\<close>

definition upload_payload :: "string \<Rightarrow> bytes \<Rightarrow> string option \<Rightarrow> json" where
  "upload_payload ttl file_content original_content_document_id =
     JObj ([(''Title'', JStr ttl),
            (''PathOnClient'', JStr (ttl @ ''.pptx'')),
            (''VersionData'', JStr (b64encode file_content)),
            (''IsMajorVersion'', JBool True)]
           @ (case original_content_document_id of
                None \<Rightarrow> []
              | Some d \<Rightarrow> if d = [] then [] else [(''ContentDocumentId'', JStr d)]))"

definition document_id_query :: "string \<Rightarrow> string" where
  "document_id_query vid = ''SELECT ContentDocumentId FROM ContentVersion WHERE Id = '' @ quoted vid"

definition upload_file_to_salesforce ::
  "env \<Rightarrow> string \<Rightarrow> string \<Rightarrow> bytes \<Rightarrow> string \<Rightarrow> string option \<Rightarrow> json io" where
  "upload_file_to_salesforce env base_url token file_content ttl original_content_document_id =
     io_bind (requests_post env (upload_url base_url) (upload_headers token)
                (upload_payload ttl file_content original_content_document_id))
       (\<lambda>response.
     io_bind (io_lift (raise_for_status response)) (\<lambda>_.
     io_bind (io_lift (response_json response)) (\<lambda>upload_result.
     io_bind (io_lift (dict_get upload_result ''success'')) (\<lambda>success.
     if truthy success then
       io_bind (io_lift (getitem_key upload_result ''id'')) (\<lambda>content_version_id.
       io_bind (requests_get env (query_url base_url) [(''Authorization'', ''Bearer '' @ token)]
                  [(''q'', document_id_query (format_value env content_version_id))])
         (\<lambda>query_response.
       io_bind (io_lift (raise_for_status query_response)) (\<lambda>_.
       io_bind (io_lift (response_json query_response)) (\<lambda>query_data.
       io_bind (io_lift (dict_get query_data ''records'')) (\<lambda>records.
       io_bind (if truthy records
                then io_bind (io_lift (getitem_key query_data ''records'')) (\<lambda>records.
                     io_bind (io_lift (getitem_0 records)) (\<lambda>record0.
                     io_lift (getitem_key record0 ''ContentDocumentId'')))
                else io_return JNull)
         (\<lambda>content_document_id.
       io_return (JObj [(''success'', JBool True),
                        (''content_version_id'', content_version_id),
                        (''content_document_id'', content_document_id),
                        (''title'', JStr ttl),
                        (''message'', JStr ''File uploaded successfully to Salesforce'')])))))))
     else io_raise (ValueError (''Upload failed: '' @ format_value env upload_result))))))"

text \<open>The title of the upload, from the stripped title, company name and tier.\<close>

definition dynamic_title :: "string \<Rightarrow> string \<Rightarrow> string \<Rightarrow> string" where
  "dynamic_title ttl company tr =
     (if ttl = ''Partner_Plus_Certificate''
      then (let safe_company = py_replace (py_replace company '' '' ''_'') ''/'' ''_''
            in ''Partner_Plus_Certificate_'' @ tr @ ''_'' @ safe_company)
      else ttl)"

subsection \<open>The three handlers\<close>

text \<open>
  Each \<open>salesforce_download_file\<close> is a \<open>try\<close> block, modelled by the \<open>_body\<close> function,
  under an \<open>except Exception\<close> clause that returns the error text as bytes.
\<close>

definition simple_body :: "env \<Rightarrow> 'a simple_input_scheme \<Rightarrow> bytes io" where
  "simple_body env input_data =
     (let fid = strip (file_id input_data)
      in if fid = [] then io_raise (ValueError ''file_id cannot be empty'')
         else
           io_bind (io_lift (oauth2_auth_code env SALESFORCE_APP_ID)) (\<lambda>creds.
           let base_url = rstrip_slash (url creds);
               hs = auth_headers (access_token creds)
           in io_bind (resolve_download_url env base_url hs fid) (\<lambda>download_url.
              download env download_url hs)))"

definition simple_salesforce_download_file ::
  "env \<Rightarrow> 'a simple_input_scheme \<Rightarrow> bytes \<times> request list" where
  "simple_salesforce_download_file env input_data =
     (case simple_body env input_data [] of
        (Inl e, sent) \<Rightarrow>
          (encode_utf8 (''Error downloading file from Salesforce: '' @ py_str e), sent)
      | (Inr file_content, sent) \<Rightarrow> (file_content, sent))"

definition replace_body :: "env \<Rightarrow> 'a replace_input_scheme \<Rightarrow> bytes io" where
  "replace_body env input_data =
     (let fid = strip (file_id input_data);
          company = strip (company_name input_data);
          tr = strip (tier input_data)
      in if fid = [] then io_raise (ValueError ''file_id cannot be empty'')
         else
           io_bind (io_lift (oauth2_auth_code env SALESFORCE_APP_ID)) (\<lambda>creds.
           let base_url = rstrip_slash (url creds);
               hs = auth_headers (access_token creds)
           in io_bind (resolve_download_url env base_url hs fid) (\<lambda>download_url.
              io_bind (download env download_url hs) (\<lambda>file_content.
              io_lift (modify_pptx_template env file_content company tr)))))"

definition replace_salesforce_download_file ::
  "env \<Rightarrow> 'a replace_input_scheme \<Rightarrow> bytes \<times> request list" where
  "replace_salesforce_download_file env input_data =
     (case replace_body env input_data [] of
        (Inl e, sent) \<Rightarrow>
          (encode_utf8 (''Error processing file from Salesforce: '' @ py_str e), sent)
      | (Inr modified_content, sent) \<Rightarrow> (modified_content, sent))"

definition upload_body :: "env \<Rightarrow> 'a upload_input_scheme \<Rightarrow> bytes io" where
  "upload_body env input_data =
     (let fid = strip (file_id input_data);
          company = strip (company_name input_data);
          tr = strip (tier input_data);
          upload_back = upload_back_to_salesforce input_data;
          ttl = strip (title input_data)
      in if fid = [] then io_raise (ValueError ''file_id cannot be empty'')
         else
           io_bind (io_lift (oauth2_auth_code env SALESFORCE_APP_ID)) (\<lambda>creds.
           let base_url = rstrip_slash (url creds);
               hs = auth_headers (access_token creds)
           in io_bind (resolve_download_url env base_url hs fid) (\<lambda>download_url.
              io_bind (download env download_url hs) (\<lambda>file_content.
              io_bind (io_lift (modify_pptx_template env file_content company tr))
                (\<lambda>modified_content.
              if upload_back
              then io_bind (upload_file_to_salesforce env base_url (access_token creds)
                              modified_content (dynamic_title ttl company tr) None)
                     (\<lambda>upload_result. io_return modified_content)
              else io_return modified_content)))))"

definition upload_salesforce_download_file ::
  "env \<Rightarrow> 'a upload_input_scheme \<Rightarrow> bytes \<times> request list" where
  "upload_salesforce_download_file env input_data =
     (case upload_body env input_data [] of
        (Inl e, sent) \<Rightarrow>
          (encode_utf8 (''Error processing file from Salesforce: '' @ py_str e), sent)
      | (Inr modified_content, sent) \<Rightarrow> (modified_content, sent))"

section \<open>Notions the properties are stated with\<close>

text \<open>
  The texts of the runs of a paragraph (\<open>paragraph.runs\<close>) and of a shape, and the text of
  a shape (\<open>shape.text\<close>).
\<close>

fun run_texts :: "para \<Rightarrow> string list" where
  "run_texts [] = []"
| "run_texts (Run s # rest) = s # run_texts rest"
| "run_texts (LineBreak # rest) = run_texts rest"
| "run_texts (Field s # rest) = run_texts rest"

definition shape_run_texts :: "shape \<Rightarrow> string list" where
  "shape_run_texts sh = (case text_frame sh of None \<Rightarrow> [] | Some ps \<Rightarrow> concat (map run_texts ps))"

definition shape_text :: "shape \<Rightarrow> string" where
  "shape_text sh = (case text_frame sh of None \<Rightarrow> [] | Some ps \<Rightarrow> frame_text ps)"

text \<open>A sample world: the parsed document and the year are given, every download answers 200.\<close>

definition example_env :: "presentation \<Rightarrow> nat \<Rightarrow> env" where
  "example_env prs year =
     \<lparr> oauth2_auth_code = (\<lambda>app. Inr \<lparr> url = ''https://example.my.salesforce.com/'', access_token = ''token'' \<rparr>),
       http_get = (\<lambda>u hs params. Inr \<lparr> status_code = 200, reason = ''OK'', response_url = u,
                      response_content = Inr [0x50, 0x4B], response_json = Inl (ValueError ''Expecting value'') \<rparr>),
       http_post = (\<lambda>u hs payload. Inl (ConnectionError ''refused'')),
       load_presentation = (\<lambda>b. Inr prs),
       save_presentation = (\<lambda>p. Inr []),
       current_year = year,
       str_of_json = (\<lambda>v. ''?'') \<rparr>"

text \<open>A sample world where every GET is answered with the given status and an empty query result.\<close>

definition status_env :: "nat \<Rightarrow> string \<Rightarrow> env" where
  "status_env status why =
     (example_env [] 2025) \<lparr> http_get := (\<lambda>u hs params.
        Inr \<lparr> status_code = status, reason = why, response_url = u,
              response_content = Inr [0x50, 0x4B], response_json = Inr (JObj [(''totalSize'', JNum 0), (''records'', JArr [])]) \<rparr>) \<rparr>"

text \<open>A sample world whose document library rejects every file.\<close>

definition broken_template_env :: env where
  "broken_template_env =
     (example_env [] 2025) \<lparr> load_presentation := (\<lambda>b. Inl (OtherException ''File is not a zip file'')) \<rparr>"

text \<open>
  Which requests a step sends: \<open>sends Q m\<close> says that \<open>m\<close> keeps the requests sent before
  it and adds only requests that satisfy \<open>Q\<close>.
\<close>

fun is_post :: "request \<Rightarrow> bool" where
  "is_post (Post u hs payload) = True"
| "is_post (Get u hs params) = False"

definition sends :: "(request \<Rightarrow> bool) \<Rightarrow> 'a io \<Rightarrow> bool" where
  "sends Q m = (\<forall>sent. \<exists>new. snd (m sent) = sent @ new \<and> list_all Q new)"

section \<open>Strings and the rewriting loops\<close>

lemma contains_iff: "contains sub s \<longleftrightarrow> (\<exists>a b. s = a @ sub @ b)"
proof (induction s)
  case Nil
  then show ?case by auto
next
  case (Cons c cs)
  show ?case
  proof
    assume "contains sub (c # cs)"
    then consider "prefix sub (c # cs)" | "contains sub cs" by auto
    then show "\<exists>a b. c # cs = a @ sub @ b"
    proof cases
      case 1
      then obtain b where "c # cs = sub @ b" by (auto simp: prefix_def)
      then have "c # cs = [] @ sub @ b" by simp
      then show ?thesis by blast
    next
      case 2
      with Cons.IH obtain a b where "cs = a @ sub @ b" by blast
      then have "c # cs = (c # a) @ sub @ b" by simp
      then show ?thesis by blast
    qed
  next
    assume "\<exists>a b. c # cs = a @ sub @ b"
    then obtain a b where ab: "c # cs = a @ sub @ b" by blast
    show "contains sub (c # cs)"
    proof (cases a)
      case Nil
      with ab have "prefix sub (c # cs)" by (simp add: prefix_def)
      then show ?thesis by simp
    next
      case (Cons x a')
      with ab have "cs = a' @ sub @ b" by simp
      with Cons.IH have "contains sub cs" by blast
      then show ?thesis by simp
    qed
  qed
qed

lemma contains_embed: "contains sub x \<Longrightarrow> contains sub (a @ x @ b)"
proof -
  assume "contains sub x"
  then obtain p q where "x = p @ sub @ q" by (auto simp: contains_iff)
  then have "a @ x @ b = (a @ p) @ sub @ (q @ b)" by simp
  then show ?thesis unfolding contains_iff by blast
qed

lemma join_lines_Cons: "join_lines (l # ls) = (if ls = [] then l else l @ CHR 0x0A # join_lines ls)"
  by (cases ls) simp_all

lemma join_lines_split: "\<exists>a b. join_lines (xs @ l # ys) = a @ l @ b"
proof (induction xs)
  case Nil
  have "join_lines (l # ys) = [] @ l @ (if ys = [] then [] else CHR 0x0A # join_lines ys)"
    by (simp add: join_lines_Cons)
  then show ?case by (metis append_Nil)
next
  case (Cons x xs)
  then obtain a b where "join_lines (xs @ l # ys) = a @ l @ b" by blast
  then have "join_lines ((x # xs) @ l # ys) = (x @ CHR 0x0A # a) @ l @ b"
    by (simp add: join_lines_Cons)
  then show ?case by blast
qed

lemma frame_text_split:
  "\<exists>a b. frame_text (pre @ [seen @ Run x # rest] @ post) = a @ x @ b"
proof -
  obtain a b where
    "join_lines (map paragraph_text pre @ paragraph_text (seen @ Run x # rest) # map paragraph_text post)
       = a @ paragraph_text (seen @ Run x # rest) @ b"
    using join_lines_split by blast
  then have "frame_text (pre @ [seen @ Run x # rest] @ post)
       = (a @ paragraph_text seen) @ x @ (paragraph_text rest @ b)"
    by (simp add: frame_text_def paragraph_text_def)
  then show ?thesis by blast
qed

lemma contains_frame_text:
  "contains sub x \<Longrightarrow> contains sub (frame_text (pre @ [seen @ Run x # rest] @ post))"
proof -
  assume c: "contains sub x"
  obtain a b where "frame_text (pre @ [seen @ Run x # rest] @ post) = a @ x @ b"
    using frame_text_split by blast
  with c show ?thesis by (simp add: contains_embed)
qed

lemma process_runs_prefix:
  "\<exists>out. process_runs c t d pre seen todo post = seen @ out \<and> length out = length todo"
proof (induction todo arbitrary: seen)
  case Nil
  then show ?case by simp
next
  case (Cons e todo)
  show ?case
  proof (cases e)
    case (Run s)
    let ?e' = "Run (rewrite_run c t d (\<lambda>x. frame_text (pre @ [seen @ Run x # todo] @ post)) s)"
    from Cons.IH[of "seen @ [?e']"] obtain out where
      "process_runs c t d pre (seen @ [?e']) todo post = (seen @ [?e']) @ out" "length out = length todo"
      by blast
    then have "process_runs c t d pre seen (e # todo) post = seen @ (?e' # out) \<and> length (?e' # out) = length (e # todo)"
      using Run by simp
    then show ?thesis by blast
  next
    case LineBreak
    from Cons.IH[of "seen @ [LineBreak]"] obtain out where
      "process_runs c t d pre (seen @ [LineBreak]) todo post = (seen @ [LineBreak]) @ out" "length out = length todo"
      by blast
    then have "process_runs c t d pre seen (e # todo) post = seen @ (LineBreak # out) \<and> length (LineBreak # out) = length (e # todo)"
      using LineBreak by simp
    then show ?thesis by blast
  next
    case (Field s)
    from Cons.IH[of "seen @ [Field s]"] obtain out where
      "process_runs c t d pre (seen @ [Field s]) todo post = (seen @ [Field s]) @ out" "length out = length todo"
      by blast
    then have "process_runs c t d pre seen (e # todo) post = seen @ (Field s # out) \<and> length (Field s # out) = length (e # todo)"
      using Field by simp
    then show ?thesis by blast
  qed
qed

lemma process_runs_at:
  "\<exists>seen' rest'. length seen' = length seen + length a \<and> length rest' = length b \<and>
     process_runs c t d pre seen (a @ Run s # b) post =
       seen' @ Run (rewrite_run c t d (\<lambda>x. frame_text (pre @ [seen' @ Run x # b] @ post)) s) # rest'"
proof (induction a arbitrary: seen)
  case Nil
  let ?e' = "Run (rewrite_run c t d (\<lambda>x. frame_text (pre @ [seen @ Run x # b] @ post)) s)"
  obtain out where "process_runs c t d pre (seen @ [?e']) b post = (seen @ [?e']) @ out" "length out = length b"
    using process_runs_prefix by blast
  then have "length seen = length seen + length ([]::content list) \<and> length out = length b \<and>
     process_runs c t d pre seen ([] @ Run s # b) post = seen @ ?e' # out" by simp
  then show ?case by blast
next
  case (Cons e a)
  obtain e' where step: "process_runs c t d pre seen ((e # a) @ Run s # b) post
      = process_runs c t d pre (seen @ [e']) (a @ Run s # b) post"
    by (cases e) auto
  from Cons.IH[of "seen @ [e']"] obtain seen' rest' where
    "length seen' = length (seen @ [e']) + length a" "length rest' = length b"
    "process_runs c t d pre (seen @ [e']) (a @ Run s # b) post =
       seen' @ Run (rewrite_run c t d (\<lambda>x. frame_text (pre @ [seen' @ Run x # b] @ post)) s) # rest'"
    by blast
  with step show ?case by auto
qed

lemma process_paragraphs_prefix:
  "\<exists>out. process_paragraphs c t d pre todo = pre @ out \<and> length out = length todo"
proof (induction todo arbitrary: pre)
  case Nil
  then show ?case by simp
next
  case (Cons p todo)
  let ?p' = "process_runs c t d pre [] p todo"
  from Cons.IH[of "pre @ [?p']"] obtain out where
    "process_paragraphs c t d (pre @ [?p']) todo = (pre @ [?p']) @ out" "length out = length todo" by blast
  then have "process_paragraphs c t d pre (p # todo) = pre @ (?p' # out) \<and> length (?p' # out) = length (p # todo)"
    by simp
  then show ?case by blast
qed

lemma process_paragraphs_at:
  "\<exists>pre' seen' rest' post'.
     length pre' = length pre + length before \<and> length seen' = length seen \<and>
     length rest' = length rest \<and> length post' = length post \<and>
     process_paragraphs c t d pre (before @ (seen @ Run s # rest) # post) =
       pre' @ (seen' @ Run (rewrite_run c t d (\<lambda>x. frame_text (pre' @ [seen' @ Run x # rest] @ post)) s) # rest') # post'"
proof (induction before arbitrary: pre)
  case Nil
  obtain seen' rest' where sr: "length seen' = length ([]::content list) + length seen" "length rest' = length rest"
     "process_runs c t d pre [] (seen @ Run s # rest) post =
       seen' @ Run (rewrite_run c t d (\<lambda>x. frame_text (pre @ [seen' @ Run x # rest] @ post)) s) # rest'"
    using process_runs_at by blast
  let ?p' = "process_runs c t d pre [] (seen @ Run s # rest) post"
  obtain out where out: "process_paragraphs c t d (pre @ [?p']) post = (pre @ [?p']) @ out" "length out = length post"
    using process_paragraphs_prefix by blast
  have "process_paragraphs c t d pre ([] @ (seen @ Run s # rest) # post) = pre @ ?p' # out"
    using out by simp
  with sr out show ?case by auto
next
  case (Cons p before)
  let ?p' = "process_runs c t d pre [] p (before @ (seen @ Run s # rest) # post)"
  from Cons.IH[of "pre @ [?p']"] show ?case by auto
qed





lemma valid_through_date_2025: "valid_through_date 2025 = ''31 December 2025''"
  by (simp add: valid_through_date_def str_of_nat.simps[of 2025] str_of_nat.simps[of 202]
      str_of_nat.simps[of 20] str_of_nat.simps[of 2] digit_char_def)

lemma process_slides_nth:
  "i < length prs \<Longrightarrow> j < length (prs ! i) \<Longrightarrow>
     process_slides c t d prs ! i ! j = process_shape c t d (prs ! i ! j)"
  by (simp add: process_slides_def)

lemma rewrite_run_example:
  "rewrite_run ''Acme'' ''Gold'' ''31 December 2025''
     (\<lambda>x. frame_text (pre @ [seen @ Run x # rest] @ post))
     ''Certificate for <Company>, Tier: <Tier>. Valid through 31 December 2019.''
   = ''Certificate for Acme, Tier: Gold. Valid through 31 December 2025.''"
proof -
  let ?t2 = "''Certificate for Acme, Tier: Gold. Valid through 31 December 2019.''"
  have s: "substitute_placeholders ''Acme'' ''Gold''
      ''Certificate for <Company>, Tier: <Tier>. Valid through 31 December 2019.'' = ?t2"
    by (simp add: substitute_placeholders_def py_replace_def)
  have "contains ''Valid through'' ?t2" by simp
  then have v: "contains ''Valid through'' (frame_text (pre @ [seen @ Run ?t2 # rest] @ post))"
    by (rule contains_frame_text)
  have d: "contains ''31 December'' ?t2" by simp
  have r: "re_sub_date ''31 December 2025'' ?t2
      = ''Certificate for Acme, Tier: Gold. Valid through 31 December 2025.''"
    by (simp add: date_match_def is_digit_def)
  show ?thesis unfolding rewrite_run_def s Let_def using v d r by simp
qed

section \<open>The template rewriter: properties\<close>

text \<open>
  C2. A run with the text \<open>Certificate for <Company>, Tier: <Tier>. Valid through 31 December
  2019.\<close>, wherever it stands in the document, is rewritten with company name \<open>Acme\<close> and
  tier \<open>Gold\<close> in the year 2025 to \<open>Certificate for Acme, Tier: Gold. Valid through 31
  December 2025.\<close>: the document that is saved has this text at the run's place. The run
  itself holds \<open>Valid through\<close>, so its shape's text does.
\<close>

theorem certificate_run_rewritten:
  assumes "current_year env = 2025"
    and "load_presentation env file_content = Inr prs"
    and "i < length prs" and "j < length (prs ! i)"
    and "prs ! i ! j = Shape (Some (before @
           (seen @ Run ''Certificate for <Company>, Tier: <Tier>. Valid through 31 December 2019.'' # rest)
           # post))"
  shows "\<exists>out before' seen' rest' post'.
           modify_pptx_template env file_content ''Acme'' ''Gold'' = save_presentation env out \<and>
           out ! i ! j = Shape (Some (before' @
             (seen' @ Run ''Certificate for Acme, Tier: Gold. Valid through 31 December 2025.'' # rest')
             # post')) \<and>
           length before' = length before \<and> length seen' = length seen \<and>
           length rest' = length rest \<and> length post' = length post"
proof -
  let ?s = "''Certificate for <Company>, Tier: <Tier>. Valid through 31 December 2019.''"
  let ?out = "process_slides ''Acme'' ''Gold'' ''31 December 2025'' prs"
  have m: "modify_pptx_template env file_content ''Acme'' ''Gold'' = save_presentation env ?out"
    using assms(1,2) by (simp add: modify_pptx_template_def valid_through_date_2025)
  obtain before' seen' rest' post' where
    l: "length before' = length ([]::para list) + length before" "length seen' = length seen"
       "length rest' = length rest" "length post' = length post"
    and p: "process_paragraphs ''Acme'' ''Gold'' ''31 December 2025'' [] (before @ (seen @ Run ?s # rest) # post) =
       before' @ (seen' @ Run (rewrite_run ''Acme'' ''Gold'' ''31 December 2025''
          (\<lambda>x. frame_text (before' @ [seen' @ Run x # rest] @ post)) ?s) # rest') # post'"
    using process_paragraphs_at by blast
  have "?out ! i ! j = process_shape ''Acme'' ''Gold'' ''31 December 2025'' (prs ! i ! j)"
    using assms(3,4) by (rule process_slides_nth)
  also have "\<dots> = Shape (Some (before' @
      (seen' @ Run ''Certificate for Acme, Tier: Gold. Valid through 31 December 2025.'' # rest') # post'))"
    using p unfolding rewrite_run_example by (simp add: assms(5) process_shape_def)
  finally have o: "?out ! i ! j = Shape (Some (before' @
      (seen' @ Run ''Certificate for Acme, Tier: Gold. Valid through 31 December 2025.'' # rest') # post'))" .
  show ?thesis
    apply (rule exI[of _ ?out], rule exI[of _ before'], rule exI[of _ seen'],
        rule exI[of _ rest'], rule exI[of _ post'])
    using m o l by simp
qed

theorem certificate_run_rewritten_witness:
  "\<exists>out before' seen' rest' post'.
     modify_pptx_template
       (example_env [[Shape (Some [[Run ''Certificate for <Company>, Tier: <Tier>. Valid through 31 December 2019.'']])]] 2025)
       [] ''Acme'' ''Gold''
     = save_presentation
       (example_env [[Shape (Some [[Run ''Certificate for <Company>, Tier: <Tier>. Valid through 31 December 2019.'']])]] 2025) out \<and>
     out ! 0 ! 0 = Shape (Some (before' @
        (seen' @ Run ''Certificate for Acme, Tier: Gold. Valid through 31 December 2025.'' # rest') # post')) \<and>
     length before' = length ([] :: para list) \<and> length seen' = length ([] :: content list) \<and>
     length rest' = length ([] :: content list) \<and> length post' = length ([] :: para list)"
  using certificate_run_rewritten [of
      "example_env [[Shape (Some [[Run ''Certificate for <Company>, Tier: <Tier>. Valid through 31 December 2019.'']])]] 2025"
      "[]" "[[Shape (Some [[Run ''Certificate for <Company>, Tier: <Tier>. Valid through 31 December 2019.'']])]]"
      0 0 "[]" "[]" "[]" "[]"]
  by (simp add: example_env_def)

lemma process_runs_stable:
  assumes "\<And>s. s \<in> set (run_texts todo) \<Longrightarrow>
     \<not> contains ''<Company>'' s \<and> \<not> contains ''<Tier>'' s \<and>
     \<not> (contains ''31 December'' s \<and> contains ''Valid through'' (frame_text (pre @ [seen @ todo] @ post)))"
  shows "process_runs c t d pre seen todo post = seen @ todo"
  using assms
proof (induction todo arbitrary: seen)
  case Nil
  then show ?case by simp
next
  case (Cons e todo)
  show ?case
  proof (cases e)
    case (Run s)
    have s: "\<not> contains ''<Company>'' s \<and> \<not> contains ''<Tier>'' s \<and>
       \<not> (contains ''31 December'' s \<and> contains ''Valid through'' (frame_text (pre @ [seen @ Run s # todo] @ post)))"
      using Cons.prems[of s] Run by simp
    then have r: "rewrite_run c t d (\<lambda>x. frame_text (pre @ [seen @ Run x # todo] @ post)) s = s"
      by (auto simp: rewrite_run_def substitute_placeholders_def)
    have "process_runs c t d pre (seen @ [Run s]) todo post = (seen @ [Run s]) @ todo"
    proof (rule Cons.IH)
      fix x assume "x \<in> set (run_texts todo)"
      then show "\<not> contains ''<Company>'' x \<and> \<not> contains ''<Tier>'' x \<and>
        \<not> (contains ''31 December'' x \<and> contains ''Valid through'' (frame_text (pre @ [(seen @ [Run s]) @ todo] @ post)))"
        using Cons.prems[of x] Run by simp
    qed
    with r Run show ?thesis by simp
  next
    case LineBreak
    have "process_runs c t d pre (seen @ [LineBreak]) todo post = (seen @ [LineBreak]) @ todo"
    proof (rule Cons.IH)
      fix x assume "x \<in> set (run_texts todo)"
      then show "\<not> contains ''<Company>'' x \<and> \<not> contains ''<Tier>'' x \<and>
        \<not> (contains ''31 December'' x \<and> contains ''Valid through'' (frame_text (pre @ [(seen @ [LineBreak]) @ todo] @ post)))"
        using Cons.prems[of x] LineBreak by simp
    qed
    with LineBreak show ?thesis by simp
  next
    case (Field f)
    have "process_runs c t d pre (seen @ [Field f]) todo post = (seen @ [Field f]) @ todo"
    proof (rule Cons.IH)
      fix x assume "x \<in> set (run_texts todo)"
      then show "\<not> contains ''<Company>'' x \<and> \<not> contains ''<Tier>'' x \<and>
        \<not> (contains ''31 December'' x \<and> contains ''Valid through'' (frame_text (pre @ [(seen @ [Field f]) @ todo] @ post)))"
        using Cons.prems[of x] Field by simp
    qed
    with Field show ?thesis by simp
  qed
qed

lemma process_paragraphs_stable:
  assumes "\<And>s. s \<in> set (concat (map run_texts todo)) \<Longrightarrow>
     \<not> contains ''<Company>'' s \<and> \<not> contains ''<Tier>'' s \<and>
     \<not> (contains ''31 December'' s \<and> contains ''Valid through'' (frame_text (pre @ todo)))"
  shows "process_paragraphs c t d pre todo = pre @ todo"
  using assms
proof (induction todo arbitrary: pre)
  case Nil
  then show ?case by simp
next
  case (Cons p todo)
  have "process_runs c t d pre [] p todo = [] @ p"
  proof (rule process_runs_stable)
    fix s assume "s \<in> set (run_texts p)"
    then show "\<not> contains ''<Company>'' s \<and> \<not> contains ''<Tier>'' s \<and>
       \<not> (contains ''31 December'' s \<and> contains ''Valid through'' (frame_text (pre @ [[] @ p] @ todo)))"
      using Cons.prems[of s] by simp
  qed
  then have p: "process_runs c t d pre [] p todo = p" by simp
  have "process_paragraphs c t d (pre @ [p]) todo = (pre @ [p]) @ todo"
  proof (rule Cons.IH)
    fix s assume "s \<in> set (concat (map run_texts todo))"
    then show "\<not> contains ''<Company>'' s \<and> \<not> contains ''<Tier>'' s \<and>
       \<not> (contains ''31 December'' s \<and> contains ''Valid through'' (frame_text ((pre @ [p]) @ todo)))"
      using Cons.prems[of s] by simp
  qed
  with p show ?case by simp
qed

lemma process_shape_stable:
  assumes "\<forall>s \<in> set (shape_run_texts sh).
     \<not> contains ''<Company>'' s \<and> \<not> contains ''<Tier>'' s \<and>
     \<not> (contains ''31 December'' s \<and> contains ''Valid through'' (shape_text sh))"
  shows "process_shape c t d sh = sh"
proof (cases sh)
  case (Shape tf)
  show ?thesis
  proof (cases tf)
    case None
    with Shape show ?thesis by (simp add: process_shape_def)
  next
    case (Some ps)
    have "process_paragraphs c t d [] ps = [] @ ps"
    proof (rule process_paragraphs_stable)
      fix s assume "s \<in> set (concat (map run_texts ps))"
      then show "\<not> contains ''<Company>'' s \<and> \<not> contains ''<Tier>'' s \<and>
         \<not> (contains ''31 December'' s \<and> contains ''Valid through'' (frame_text ([] @ ps)))"
        using assms Shape Some by (auto simp: shape_run_texts_def shape_text_def)
    qed
    with Shape Some show ?thesis by (simp add: process_shape_def)
  qed
qed

text \<open>
  C3, amended. When no run of the document holds a placeholder token, and no run that holds
  \<open>31 December\<close> stands in a shape whose text holds \<open>Valid through\<close>, the rewriter changes
  nothing: the rewritten document is the parsed one, and it is the one that is saved.
\<close>

theorem unchanged_without_placeholders_and_dates:
  assumes "load_presentation env file_content = Inr prs"
    and "\<forall>sl \<in> set prs. \<forall>sh \<in> set sl. \<forall>s \<in> set (shape_run_texts sh).
           \<not> contains ''<Company>'' s \<and> \<not> contains ''<Tier>'' s \<and>
           \<not> (contains ''31 December'' s \<and> contains ''Valid through'' (shape_text sh))"
  shows "process_slides company tr (valid_through_date (current_year env)) prs = prs \<and>
         modify_pptx_template env file_content company tr = save_presentation env prs"
proof -
  have "map (map (process_shape company tr (valid_through_date (current_year env)))) prs = prs"
    using assms(2) by (intro map_idI) (simp add: process_shape_stable)
  then have "process_slides company tr (valid_through_date (current_year env)) prs = prs"
    by (simp add: process_slides_def)
  then show ?thesis using assms(1) by (simp add: modify_pptx_template_def)
qed

theorem unchanged_without_placeholders_and_dates_witness:
  "process_slides ''Acme'' ''Gold'' (valid_through_date (current_year
       (example_env [[Shape (Some [[Run ''Partner since 31 December 2019'', LineBreak, Run ''Welcome'']]), Shape None]] 2025)))
     [[Shape (Some [[Run ''Partner since 31 December 2019'', LineBreak, Run ''Welcome'']]), Shape None]]
   = [[Shape (Some [[Run ''Partner since 31 December 2019'', LineBreak, Run ''Welcome'']]), Shape None]] \<and>
   modify_pptx_template
     (example_env [[Shape (Some [[Run ''Partner since 31 December 2019'', LineBreak, Run ''Welcome'']]), Shape None]] 2025)
     [] ''Acme'' ''Gold''
   = save_presentation
     (example_env [[Shape (Some [[Run ''Partner since 31 December 2019'', LineBreak, Run ''Welcome'']]), Shape None]] 2025)
     [[Shape (Some [[Run ''Partner since 31 December 2019'', LineBreak, Run ''Welcome'']]), Shape None]]"
  by (rule unchanged_without_placeholders_and_dates)
     (simp_all add: example_env_def shape_run_texts_def shape_text_def frame_text_def paragraph_text_def)

text \<open>
  C3 as stated fails: a run without placeholder tokens that holds the date, in a shape with
  \<open>Valid through\<close>, is rewritten to the current year.
\<close>

theorem dated_run_without_placeholders_counterexample:
  "shape_run_texts (Shape (Some [[Run ''Valid through 31 December 2019'']]))
     = [''Valid through 31 December 2019''] \<and>
   \<not> contains ''<Company>'' ''Valid through 31 December 2019'' \<and>
   \<not> contains ''<Tier>'' ''Valid through 31 December 2019'' \<and>
   process_slides ''Acme'' ''Gold'' (valid_through_date 2025)
     [[Shape (Some [[Run ''Valid through 31 December 2019'']])]]
     = [[Shape (Some [[Run ''Valid through 31 December 2025'']])]] \<and>
   [[Shape (Some [[Run ''Valid through 31 December 2025'']])]]
     \<noteq> [[Shape (Some [[Run ''Valid through 31 December 2019'']])]]"
  by (simp add: valid_through_date_2025 shape_run_texts_def process_slides_def process_shape_def
      rewrite_run_def substitute_placeholders_def frame_text_def paragraph_text_def
      date_match_def is_digit_def)




section \<open>Resolving and retrieving: properties\<close>

lemma io_bind_lift [simp]:
  "io_bind (io_lift r) f sent = (case r of Inl e \<Rightarrow> (Inl e, sent) | Inr x \<Rightarrow> f x sent)"
  by (simp add: io_bind_def io_lift_def split: sum.splits)

lemma io_bind_get [simp]:
  "io_bind (requests_get env u hs ps) f sent =
     (case http_get env u hs ps of Inl e \<Rightarrow> (Inl e, sent @ [Get u hs ps])
      | Inr r \<Rightarrow> f r (sent @ [Get u hs ps]))"
  by (simp add: io_bind_def requests_get_def split: sum.splits)

lemma io_bind_post [simp]:
  "io_bind (requests_post env u hs p) f sent =
     (case http_post env u hs p of Inl e \<Rightarrow> (Inl e, sent @ [Post u hs p])
      | Inr r \<Rightarrow> f r (sent @ [Post u hs p]))"
  by (simp add: io_bind_def requests_post_def split: sum.splits)

lemma io_return_apply [simp]: "io_return x sent = (Inr x, sent)"
  by (simp add: io_return_def)

lemma io_raise_apply [simp]: "io_raise e sent = (Inl e, sent)"
  by (simp add: io_raise_def)

lemma io_lift_apply [simp]: "io_lift r sent = (r, sent)"
  by (simp add: io_lift_def)

lemma io_bind_apply:
  "io_bind m f sent = (case m sent of (Inl e, sent') \<Rightarrow> (Inl e, sent') | (Inr x, sent') \<Rightarrow> f x sent')"
  by (simp add: io_bind_def)

lemma contains_append_left: "contains sub x \<Longrightarrow> contains sub (a @ x)"
  using contains_embed [of sub x a "[]"] by simp

lemma unknown_format_message_names_prefixes:
  "contains ''069'' (unknown_format_message fid) \<and> contains ''068'' (unknown_format_message fid) \<and>
   contains ''00P'' (unknown_format_message fid)"
proof -
  let ?tail = "''. Expected ContentDocument (069), ContentVersion (068), or Attachment (00P)''"
  have m: "unknown_format_message fid = (''Unknown Salesforce ID format: '' @ fid) @ ?tail"
    by (simp add: unknown_format_message_def)
  have "contains ''069'' ?tail" "contains ''068'' ?tail" "contains ''00P'' ?tail" by simp_all
  then show ?thesis unfolding m by (intro conjI contains_append_left)
qed

lemma resolve_unknown:
  assumes "\<not> startswith fid ''069''" "\<not> startswith fid ''068''" "\<not> startswith fid ''00P''"
  shows "resolve_download_url env base_url hs fid sent = (Inl (ValueError (unknown_format_message fid)), sent)"
  using assms by (simp add: resolve_download_url_def)

text \<open>
  C5. For every identifier that starts with none of \<open>069\<close>, \<open>068\<close>, \<open>00P\<close>, resolving
  fails with the \<open>ValueError\<close> for an unknown format, sends no request, and the message names
  the three prefixes. In each tool, once the credentials are there, the stripped file id goes
  to this step, and the error text is what the tool returns.
\<close>

theorem unknown_prefix_rejected:
  assumes "\<not> startswith fid ''069''" and "\<not> startswith fid ''068''" and "\<not> startswith fid ''00P''"
  shows "resolve_download_url env base_url hs fid sent
           = (Inl (ValueError (unknown_format_message fid)), sent) \<and>
         contains ''069'' (unknown_format_message fid) \<and>
         contains ''068'' (unknown_format_message fid) \<and>
         contains ''00P'' (unknown_format_message fid) \<and>
         (strip (file_id input_data) = fid \<and> fid \<noteq> [] \<and>
          oauth2_auth_code env SALESFORCE_APP_ID = Inr cr \<longrightarrow>
            simple_salesforce_download_file env input_data
              = (encode_utf8 (''Error downloading file from Salesforce: '' @ unknown_format_message fid), []) \<and>
            replace_salesforce_download_file env input_data
              = (encode_utf8 (''Error processing file from Salesforce: '' @ unknown_format_message fid), []) \<and>
            upload_salesforce_download_file env input_data
              = (encode_utf8 (''Error processing file from Salesforce: '' @ unknown_format_message fid), []))"
  using assms unknown_format_message_names_prefixes [of fid]
  by (simp add: resolve_unknown io_bind_apply simple_salesforce_download_file_def simple_body_def
      replace_salesforce_download_file_def replace_body_def
      upload_salesforce_download_file_def upload_body_def Let_def)



theorem unknown_prefix_rejected_witness:
  "resolve_download_url (example_env [] 2025) ''https://example.my.salesforce.com''
       (auth_headers ''token'') ''015ABC'' []
     = (Inl (ValueError (unknown_format_message ''015ABC'')), []) \<and>
   contains ''069'' (unknown_format_message ''015ABC'') \<and>
   contains ''068'' (unknown_format_message ''015ABC'') \<and>
   contains ''00P'' (unknown_format_message ''015ABC'') \<and>
   simple_salesforce_download_file (example_env [] 2025)
       \<lparr> file_id = '' 015ABC'', company_name = ''Acme'', tier = ''Gold'',
         upload_back_to_salesforce = True, title = ''T'' \<rparr>
     = (encode_utf8 (''Error downloading file from Salesforce: '' @ unknown_format_message ''015ABC''), []) \<and>
   replace_salesforce_download_file (example_env [] 2025)
       \<lparr> file_id = '' 015ABC'', company_name = ''Acme'', tier = ''Gold'',
         upload_back_to_salesforce = True, title = ''T'' \<rparr>
     = (encode_utf8 (''Error processing file from Salesforce: '' @ unknown_format_message ''015ABC''), []) \<and>
   upload_salesforce_download_file (example_env [] 2025)
       \<lparr> file_id = '' 015ABC'', company_name = ''Acme'', tier = ''Gold'',
         upload_back_to_salesforce = True, title = ''T'' \<rparr>
     = (encode_utf8 (''Error processing file from Salesforce: '' @ unknown_format_message ''015ABC''), [])"
proof -
  have s: "strip '' 015ABC'' = ''015ABC''"
    by (simp add: strip_def lstrip_def rstrip_def is_space_def)
  show ?thesis
    using unknown_prefix_rejected [of "''015ABC''" "example_env [] 2025"
        "''https://example.my.salesforce.com''" "auth_headers ''token''" "[]"
        "\<lparr> file_id = '' 015ABC'', company_name = ''Acme'', tier = ''Gold'',
           upload_back_to_salesforce = True, title = ''T'' \<rparr>"
        "\<lparr> url = ''https://example.my.salesforce.com/'', access_token = ''token'' \<rparr>"]
    by (simp add: s startswith_def example_env_def)
qed

lemma raise_for_status_ok:
  "\<not> (400 \<le> status_code r \<and> status_code r < 600) \<Longrightarrow> raise_for_status r = Inr ()"
  by (auto simp: raise_for_status_def)

lemma raise_for_status_error:
  "400 \<le> status_code r \<Longrightarrow> status_code r < 600 \<Longrightarrow>
     \<exists>m. raise_for_status r = Inl (HTTPError (status_code r) m)"
  by (auto simp: raise_for_status_def)

lemma resolve_no_records:
  assumes "startswith fid ''069''"
    and "http_get env (query_url base_url) hs [(''q'', latest_version_query fid)] = Inr r"
    and "\<not> (400 \<le> status_code r \<and> status_code r < 600)"
    and "response_json r = Inr query_data"
    and "dict_get query_data ''records'' = Inr records"
    and "\<not> truthy records"
  shows "resolve_download_url env base_url hs fid sent
           = (Inl (ValueError (not_found_message fid)),
              sent @ [Get (query_url base_url) hs [(''q'', latest_version_query fid)]])"
  using assms by (simp add: resolve_download_url_def raise_for_status_ok)

text \<open>
  C6. For an identifier that starts with \<open>069\<close>, when the lookup query is answered
  without an HTTP error and its \<open>records\<close> list is empty, resolving fails with the
  \<open>ValueError\<close> saying that no file was found, and only the query has been sent. Each tool
  then returns that error text and downloads nothing.
\<close>

theorem zero_records_not_found:
  assumes "startswith fid ''069''"
    and "http_get env (query_url base_url) hs [(''q'', latest_version_query fid)] = Inr r"
    and "\<not> (400 \<le> status_code r \<and> status_code r < 600)"
    and "response_json r = Inr (JObj kvs)"
    and "map_of kvs ''records'' = Some (JArr [])"
  shows "resolve_download_url env base_url hs fid sent
           = (Inl (ValueError (not_found_message fid)),
              sent @ [Get (query_url base_url) hs [(''q'', latest_version_query fid)]]) \<and>
         (strip (file_id input_data) = fid \<and>
          oauth2_auth_code env SALESFORCE_APP_ID = Inr cr \<and>
          base_url = rstrip_slash (url cr) \<and> hs = auth_headers (access_token cr) \<longrightarrow>
            simple_salesforce_download_file env input_data
              = (encode_utf8 (''Error downloading file from Salesforce: '' @ not_found_message fid),
                 [Get (query_url base_url) hs [(''q'', latest_version_query fid)]]) \<and>
            replace_salesforce_download_file env input_data
              = (encode_utf8 (''Error processing file from Salesforce: '' @ not_found_message fid),
                 [Get (query_url base_url) hs [(''q'', latest_version_query fid)]]) \<and>
            upload_salesforce_download_file env input_data
              = (encode_utf8 (''Error processing file from Salesforce: '' @ not_found_message fid),
                 [Get (query_url base_url) hs [(''q'', latest_version_query fid)]]))"
proof -
  have d: "dict_get (JObj kvs) ''records'' = Inr (JArr [])" using assms(5) by simp
  have t: "\<not> truthy (JArr [])" by simp
  have r: "resolve_download_url env base_url hs fid sent'
           = (Inl (ValueError (not_found_message fid)),
              sent' @ [Get (query_url base_url) hs [(''q'', latest_version_query fid)]])" for sent'
    using assms(1-4) d t by (rule resolve_no_records)
  have ne: "fid \<noteq> []" using assms(1) by (auto simp: startswith_def)
  show ?thesis
    using r ne
    by (auto simp: io_bind_apply simple_salesforce_download_file_def simple_body_def
        replace_salesforce_download_file_def replace_body_def
        upload_salesforce_download_file_def upload_body_def Let_def)
qed

theorem zero_records_not_found_witness:
  "resolve_download_url (status_env 200 ''OK'') ''https://example.my.salesforce.com''
       (auth_headers ''token'') ''069ABC'' []
     = (Inl (ValueError (not_found_message ''069ABC'')),
        [Get (query_url ''https://example.my.salesforce.com'') (auth_headers ''token'')
           [(''q'', latest_version_query ''069ABC'')]]) \<and>
   simple_salesforce_download_file (status_env 200 ''OK'')
       \<lparr> file_id = ''069ABC'', company_name = ''Acme'', tier = ''Gold'',
         upload_back_to_salesforce = True, title = ''T'' \<rparr>
     = (encode_utf8 (''Error downloading file from Salesforce: '' @ not_found_message ''069ABC''),
        [Get (query_url ''https://example.my.salesforce.com'') (auth_headers ''token'')
           [(''q'', latest_version_query ''069ABC'')]]) \<and>
   replace_salesforce_download_file (status_env 200 ''OK'')
       \<lparr> file_id = ''069ABC'', company_name = ''Acme'', tier = ''Gold'',
         upload_back_to_salesforce = True, title = ''T'' \<rparr>
     = (encode_utf8 (''Error processing file from Salesforce: '' @ not_found_message ''069ABC''),
        [Get (query_url ''https://example.my.salesforce.com'') (auth_headers ''token'')
           [(''q'', latest_version_query ''069ABC'')]]) \<and>
   upload_salesforce_download_file (status_env 200 ''OK'')
       \<lparr> file_id = ''069ABC'', company_name = ''Acme'', tier = ''Gold'',
         upload_back_to_salesforce = True, title = ''T'' \<rparr>
     = (encode_utf8 (''Error processing file from Salesforce: '' @ not_found_message ''069ABC''),
        [Get (query_url ''https://example.my.salesforce.com'') (auth_headers ''token'')
           [(''q'', latest_version_query ''069ABC'')]])"
proof -
  have s: "strip ''069ABC'' = ''069ABC''"
    by (simp add: strip_def lstrip_def rstrip_def is_space_def)
  have u: "rstrip_slash ''https://example.my.salesforce.com/'' = ''https://example.my.salesforce.com''"
    by (simp add: rstrip_slash_def)
  show ?thesis
    using zero_records_not_found [of "''069ABC''" "status_env 200 ''OK''"
        "''https://example.my.salesforce.com''" "auth_headers ''token''"
        "\<lparr> status_code = 200, reason = ''OK'',
           response_url = query_url ''https://example.my.salesforce.com'',
           response_content = Inr [0x50, 0x4B],
           response_json = Inr (JObj [(''totalSize'', JNum 0), (''records'', JArr [])]) \<rparr>"
        "[(''totalSize'', JNum 0), (''records'', JArr [])]" "[]"
        "\<lparr> file_id = ''069ABC'', company_name = ''Acme'', tier = ''Gold'',
           upload_back_to_salesforce = True, title = ''T'' \<rparr>"
        "\<lparr> url = ''https://example.my.salesforce.com/'', access_token = ''token'' \<rparr>"]
    by (simp add: s u startswith_def status_env_def example_env_def)
qed

text \<open>
  C7, amended. For every response of the download address with a status code from 400 to
  599, the download fails with an \<open>HTTPError\<close> that carries this status code; no bytes are
  read.
\<close>

theorem http_error_status_fails:
  assumes "http_get env download_url hs [] = Inr r"
    and "400 \<le> status_code r" and "status_code r < 600"
  shows "\<exists>m. download env download_url hs sent
           = (Inl (HTTPError (status_code r) m), sent @ [Get download_url hs []])"
proof -
  obtain m where "raise_for_status r = Inl (HTTPError (status_code r) m)"
    using raise_for_status_error [OF assms(2,3)] by blast
  then have "download env download_url hs sent
           = (Inl (HTTPError (status_code r) m), sent @ [Get download_url hs []])"
    using assms(1) by (simp add: download_def)
  then show ?thesis by blast
qed

theorem http_error_status_fails_witness:
  "\<exists>m. download (status_env 404 ''Not Found'') ''https://example.my.salesforce.com/f''
          (auth_headers ''token'') []
     = (Inl (HTTPError 404 m),
        [Get ''https://example.my.salesforce.com/f'' (auth_headers ''token'') []])"
  using http_error_status_fails [of "status_env 404 ''Not Found''"
      "''https://example.my.salesforce.com/f''" "auth_headers ''token''"
      "\<lparr> status_code = 404, reason = ''Not Found'',
         response_url = ''https://example.my.salesforce.com/f'',
         response_content = Inr [0x50, 0x4B],
         response_json = Inr (JObj [(''totalSize'', JNum 0), (''records'', JArr [])]) \<rparr>" "[]"]
  by (simp add: status_env_def example_env_def)

text \<open>
  C7 as stated fails: a response with status 304 is not a 2xx response, yet
  \<open>raise_for_status\<close> does not raise for it, and its body is returned as the file.
\<close>

theorem not_modified_response_counterexample:
  "download (status_env 304 ''Not Modified'')
       ''https://example.my.salesforce.com/services/data/v58.0/sobjects/ContentVersion/068ABC/VersionData''
       (auth_headers ''token'') []
     = (Inr [0x50, 0x4B],
        [Get ''https://example.my.salesforce.com/services/data/v58.0/sobjects/ContentVersion/068ABC/VersionData''
           (auth_headers ''token'') []]) \<and>
   simple_salesforce_download_file (status_env 304 ''Not Modified'') \<lparr> file_id = ''068ABC'' \<rparr>
     = ([0x50, 0x4B],
        [Get ''https://example.my.salesforce.com/services/data/v58.0/sobjects/ContentVersion/068ABC/VersionData''
           (auth_headers ''token'') []])"
proof -
  let ?env = "status_env 304 ''Not Modified''"
  let ?u = "''https://example.my.salesforce.com/services/data/v58.0/sobjects/ContentVersion/068ABC/VersionData''"
  have d: "download ?env ?u (auth_headers ''token'') [] = (Inr [0x50, 0x4B], [Get ?u (auth_headers ''token'') []])"
    by (simp add: download_def raise_for_status_def status_env_def example_env_def)
  have r: "resolve_download_url ?env ''https://example.my.salesforce.com'' (auth_headers ''token'') ''068ABC'' []
      = (Inr ?u, [])"
    by (simp add: resolve_download_url_def startswith_def version_data_url_def SALESFORCE_API_VERSION_def)
  have s: "strip ''068ABC'' = ''068ABC''"
    by (simp add: strip_def lstrip_def rstrip_def is_space_def)
  have c: "oauth2_auth_code ?env SALESFORCE_APP_ID
      = Inr \<lparr> url = ''https://example.my.salesforce.com/'', access_token = ''token'' \<rparr>"
    by (simp add: status_env_def example_env_def)
  have "simple_salesforce_download_file ?env \<lparr> file_id = ''068ABC'' \<rparr>
     = ([0x50, 0x4B], [Get ?u (auth_headers ''token'') []])"
    by (simp add: simple_salesforce_download_file_def simple_body_def s c rstrip_slash_def
        io_bind_apply r d Let_def)
  with d show ?thesis by simp
qed

section \<open>Failures: properties\<close>





lemma modify_fails:
  assumes "load_presentation env file_content = Inl e \<or>
           (\<exists>prs. load_presentation env file_content = Inr prs \<and>
              save_presentation env
                (process_slides company tr (valid_through_date (current_year env)) prs) = Inl e)"
  shows "modify_pptx_template env file_content company tr = Inl e"
  using assms by (auto simp: modify_pptx_template_def)

text \<open>
  C8. When parsing the downloaded bytes fails, or saving the rewritten document fails,
  \<open>modify_pptx_template\<close> fails with that exception and returns no bytes. The replacing and
  the uploading tool then return the error text built from the exception, not the downloaded
  bytes, and send nothing after the download.
\<close>

theorem template_failure_aborts:
  assumes "load_presentation env file_content = Inl e \<or>
           (\<exists>prs. load_presentation env file_content = Inr prs \<and>
              save_presentation env
                (process_slides company tr (valid_through_date (current_year env)) prs) = Inl e)"
  shows "modify_pptx_template env file_content company tr = Inl e \<and>
         (strip (file_id input_data) \<noteq> [] \<and>
          oauth2_auth_code env SALESFORCE_APP_ID = Inr cr \<and>
          resolve_download_url env (rstrip_slash (url cr)) (auth_headers (access_token cr))
            (strip (file_id input_data)) [] = (Inr download_url, sent1) \<and>
          download env download_url (auth_headers (access_token cr)) sent1
            = (Inr file_content, sent2) \<and>
          company = strip (company_name input_data) \<and> tr = strip (tier input_data) \<longrightarrow>
            replace_salesforce_download_file env input_data
              = (encode_utf8 (''Error processing file from Salesforce: '' @ py_str e), sent2) \<and>
            upload_salesforce_download_file env input_data
              = (encode_utf8 (''Error processing file from Salesforce: '' @ py_str e), sent2))"
proof -
  have m: "modify_pptx_template env file_content company tr = Inl e"
    using assms by (rule modify_fails)
  then show ?thesis
    by (auto simp: io_bind_apply replace_salesforce_download_file_def replace_body_def
        upload_salesforce_download_file_def upload_body_def Let_def)
qed

theorem template_failure_aborts_witness:
  "modify_pptx_template broken_template_env [0x50, 0x4B] ''Acme'' ''Gold''
     = Inl (OtherException ''File is not a zip file'') \<and>
   replace_salesforce_download_file broken_template_env
       \<lparr> file_id = ''068ABC'', company_name = ''Acme'', tier = ''Gold'',
         upload_back_to_salesforce = True, title = ''T'' \<rparr>
     = (encode_utf8 (''Error processing file from Salesforce: '' @ ''File is not a zip file''),
        [Get (version_data_url ''https://example.my.salesforce.com'' ''068ABC'') (auth_headers ''token'') []]) \<and>
   upload_salesforce_download_file broken_template_env
       \<lparr> file_id = ''068ABC'', company_name = ''Acme'', tier = ''Gold'',
         upload_back_to_salesforce = True, title = ''T'' \<rparr>
     = (encode_utf8 (''Error processing file from Salesforce: '' @ ''File is not a zip file''),
        [Get (version_data_url ''https://example.my.salesforce.com'' ''068ABC'') (auth_headers ''token'') []])"
proof -
  let ?u = "version_data_url ''https://example.my.salesforce.com'' ''068ABC''"
  have s: "strip ''068ABC'' = ''068ABC''" "strip ''Acme'' = ''Acme''" "strip ''Gold'' = ''Gold''"
    by (simp_all add: strip_def lstrip_def rstrip_def is_space_def)
  have u: "rstrip_slash ''https://example.my.salesforce.com/'' = ''https://example.my.salesforce.com''"
    by (simp add: rstrip_slash_def)
  have r: "resolve_download_url broken_template_env ''https://example.my.salesforce.com''
      (auth_headers ''token'') ''068ABC'' [] = (Inr ?u, [])"
    by (simp add: resolve_download_url_def startswith_def)
  have d: "download broken_template_env ?u (auth_headers ''token'') []
      = (Inr [0x50, 0x4B], [Get ?u (auth_headers ''token'') []])"
    by (simp add: download_def raise_for_status_def broken_template_env_def example_env_def)
  show ?thesis
    using template_failure_aborts [of broken_template_env "[0x50, 0x4B]"
        "OtherException ''File is not a zip file''" "''Acme''" "''Gold''"
        "\<lparr> file_id = ''068ABC'', company_name = ''Acme'', tier = ''Gold'',
           upload_back_to_salesforce = True, title = ''T'' \<rparr>"
        "\<lparr> url = ''https://example.my.salesforce.com/'', access_token = ''token'' \<rparr>"
        ?u "[]" "[Get ?u (auth_headers ''token'') []]"]
    using r d
    by (simp add: s u broken_template_env_def example_env_def)
qed

section \<open>Uploading: properties\<close>

lemma sends_return: "sends Q (io_return x)"
  by (simp add: sends_def)

lemma sends_raise: "sends Q (io_raise e)"
  by (simp add: sends_def)

lemma sends_lift: "sends Q (io_lift r)"
  by (simp add: sends_def)

lemma sends_get: "Q (Get u hs ps) \<Longrightarrow> sends Q (requests_get env u hs ps)"
  by (simp add: sends_def requests_get_def)

lemma sends_post: "Q (Post u hs p) \<Longrightarrow> sends Q (requests_post env u hs p)"
  by (simp add: sends_def requests_post_def)

lemma sends_bind:
  assumes "sends Q m" and "\<And>x. sends Q (f x)"
  shows "sends Q (io_bind m f)"
  unfolding sends_def
proof
  fix sent
  obtain r sent1 where m: "m sent = (r, sent1)" by (cases "m sent")
  from assms(1) obtain n1 where n1: "sent1 = sent @ n1" "list_all Q n1"
    using m unfolding sends_def by (metis snd_conv)
  show "\<exists>new. snd (io_bind m f sent) = sent @ new \<and> list_all Q new"
  proof (cases r)
    case (Inl e)
    with m n1 show ?thesis by (simp add: io_bind_apply)
  next
    case (Inr x)
    from assms(2)[of x] obtain n2 where "snd (f x sent1) = sent1 @ n2" "list_all Q n2"
      unfolding sends_def by blast
    with m n1 Inr have "snd (io_bind m f sent) = sent @ (n1 @ n2) \<and> list_all Q (n1 @ n2)"
      by (simp add: io_bind_apply)
    then show ?thesis by blast
  qed
qed

lemma sends_if: "sends Q a \<Longrightarrow> sends Q b \<Longrightarrow> sends Q (if c then a else b)"
  by simp

lemma sends_mono: "sends P m \<Longrightarrow> (\<And>r. P r \<Longrightarrow> Q r) \<Longrightarrow> sends Q m"
  unfolding sends_def by (metis (mono_tags, lifting) list_all_iff)

lemmas sends_intros =
  sends_bind sends_if sends_return sends_raise sends_lift sends_get sends_post

lemma resolve_sends_gets: "sends (\<lambda>r. \<not> is_post r) (resolve_download_url env base_url hs fid)"
  unfolding resolve_download_url_def by (intro sends_intros) simp_all

lemma download_sends_gets: "sends (\<lambda>r. \<not> is_post r) (download env u hs)"
  unfolding download_def by (intro sends_intros) simp_all

lemma upload_sends:
  "sends (\<lambda>r. is_post r \<longrightarrow> r = Post (upload_url base_url) (upload_headers token)
                                   (upload_payload ttl file_content original))
     (upload_file_to_salesforce env base_url token file_content ttl original)"
  unfolding upload_file_to_salesforce_def by (intro sends_intros) simp_all




lemma upload_payload_new_document:
  "upload_payload ttl file_content None =
     JObj [(''Title'', JStr ttl), (''PathOnClient'', JStr (ttl @ ''.pptx'')),
           (''VersionData'', JStr (b64encode file_content)), (''IsMajorVersion'', JBool True)]"
  by (simp add: upload_payload_def)

lemma upload_body_sends:
  "sends (\<lambda>r. is_post r \<longrightarrow>
            (\<exists>base_url token file_content. r = Post (upload_url base_url) (upload_headers token)
               (upload_payload
                  (dynamic_title (strip (title input_data)) (strip (company_name input_data))
                     (strip (tier input_data)))
                  file_content None)))
     (upload_body env input_data)"
  unfolding upload_body_def Let_def
  apply (intro sends_intros)
        apply (rule sends_mono [OF resolve_sends_gets], simp)
       apply (rule sends_mono [OF download_sends_gets], simp)
      apply (rule sends_mono [OF upload_sends], blast)
  done

lemma handler_trace:
  "snd (upload_salesforce_download_file env input_data) = snd (upload_body env input_data [])"
  by (simp add: upload_salesforce_download_file_def split: prod.splits sum.splits)



lemma example_pipeline:
  assumes "strip (file_id input_data) = ''068ABC''"
    and "upload_back_to_salesforce input_data"
  shows "snd (upload_salesforce_download_file (example_env [] 2025) input_data)
     = [Get (version_data_url ''https://example.my.salesforce.com'' ''068ABC'') (auth_headers ''token'') [],
        Post (upload_url ''https://example.my.salesforce.com'') (upload_headers ''token'')
          (upload_payload (dynamic_title (strip (title input_data)) (strip (company_name input_data))
               (strip (tier input_data))) [] None)]"
proof -
  let ?env = "example_env [] 2025"
  let ?u = "version_data_url ''https://example.my.salesforce.com'' ''068ABC''"
  let ?T = "dynamic_title (strip (title input_data)) (strip (company_name input_data))
               (strip (tier input_data))"
  have u: "rstrip_slash ''https://example.my.salesforce.com/'' = ''https://example.my.salesforce.com''"
    by (simp add: rstrip_slash_def)
  have c: "oauth2_auth_code ?env SALESFORCE_APP_ID
      = Inr \<lparr> url = ''https://example.my.salesforce.com/'', access_token = ''token'' \<rparr>"
    by (simp add: example_env_def)
  have r: "resolve_download_url ?env ''https://example.my.salesforce.com''
      (auth_headers ''token'') ''068ABC'' [] = (Inr ?u, [])"
    by (simp add: resolve_download_url_def startswith_def)
  have d: "download ?env ?u (auth_headers ''token'') []
      = (Inr [0x50, 0x4B], [Get ?u (auth_headers ''token'') []])"
    by (simp add: download_def raise_for_status_def example_env_def)
  have m: "modify_pptx_template ?env [0x50, 0x4B] company tr = Inr []" for company tr
    by (simp add: modify_pptx_template_def example_env_def process_slides_def)
  have p: "upload_file_to_salesforce ?env ''https://example.my.salesforce.com'' ''token'' [] ?T None sent
      = (Inl (ConnectionError ''refused''),
         sent @ [Post (upload_url ''https://example.my.salesforce.com'') (upload_headers ''token'')
                   (upload_payload ?T [] None)])" for sent
    by (simp add: upload_file_to_salesforce_def example_env_def)
  show ?thesis
    using assms
    by (simp add: upload_salesforce_download_file_def upload_body_def Let_def io_bind_apply
        c u r d m p)
qed


lemma replace_scan_single:
  "replace_scan [a] [b] s = map (\<lambda>c. if c = a then b else c) s"
  by (induction s) auto

lemma dynamic_title_chars:
  "dynamic_title ttl company tr =
     (if ttl = ''Partner_Plus_Certificate''
      then ''Partner_Plus_Certificate_'' @ tr @ ''_''
           @ map (\<lambda>c. if c = CHR '' '' \<or> c = CHR ''/'' then CHR ''_'' else c) company
      else ttl)"
  by (simp add: dynamic_title_def py_replace_def replace_scan_single)

text \<open>
  C10, amended. The title, the tier and the company name are stripped of surrounding white
  space first. If the stripped title is \<open>Partner_Plus_Certificate\<close>, the title of the
  upload is \<open>Partner_Plus_Certificate_\<close>, the tier, an underscore, and the company name
  in which every space and every \<open>/\<close> is an underscore; otherwise it is the stripped title.
  Every POST the tool sends carries that title.
\<close>

theorem upload_title_from_stripped_input:
  "dynamic_title (strip (title input_data)) (strip (company_name input_data))
       (strip (tier input_data))
     = (if strip (title input_data) = ''Partner_Plus_Certificate''
        then ''Partner_Plus_Certificate_'' @ strip (tier input_data) @ ''_''
             @ map (\<lambda>c. if c = CHR '' '' \<or> c = CHR ''/'' then CHR ''_'' else c)
                 (strip (company_name input_data))
        else strip (title input_data)) \<and>
   (\<forall>r \<in> set (snd (upload_salesforce_download_file env input_data)).
      \<forall>u hs payload. r = Post u hs payload \<longrightarrow>
        dict_get payload ''Title''
          = Inr (JStr (if strip (title input_data) = ''Partner_Plus_Certificate''
                       then ''Partner_Plus_Certificate_'' @ strip (tier input_data) @ ''_''
                            @ map (\<lambda>c. if c = CHR '' '' \<or> c = CHR ''/'' then CHR ''_'' else c)
                                (strip (company_name input_data))
                       else strip (title input_data))))"
proof (intro conjI ballI allI impI)
  show "dynamic_title (strip (title input_data)) (strip (company_name input_data))
       (strip (tier input_data))
     = (if strip (title input_data) = ''Partner_Plus_Certificate''
        then ''Partner_Plus_Certificate_'' @ strip (tier input_data) @ ''_''
             @ map (\<lambda>c. if c = CHR '' '' \<or> c = CHR ''/'' then CHR ''_'' else c)
                 (strip (company_name input_data))
        else strip (title input_data))"
    by (rule dynamic_title_chars)
next
  fix r u hs payload
  assume r: "r \<in> set (snd (upload_salesforce_download_file env input_data))" "r = Post u hs payload"
  let ?T = "dynamic_title (strip (title input_data)) (strip (company_name input_data))
              (strip (tier input_data))"
  from upload_body_sends [of input_data env] obtain new where
    "snd (upload_body env input_data []) = [] @ new"
    and new: "list_all (\<lambda>r. is_post r \<longrightarrow>
            (\<exists>base_url token file_content. r = Post (upload_url base_url) (upload_headers token)
               (upload_payload ?T file_content None))) new"
    unfolding sends_def by blast
  with r have "r \<in> set new" by (simp add: handler_trace)
  with new r(2) obtain file_content where p: "payload = upload_payload ?T file_content None"
    by (auto simp: list_all_iff)
  have "dict_get payload ''Title'' = Inr (JStr ?T)"
    unfolding p upload_payload_new_document by simp
  then show "dict_get payload ''Title''
          = Inr (JStr (if strip (title input_data) = ''Partner_Plus_Certificate''
                       then ''Partner_Plus_Certificate_'' @ strip (tier input_data) @ ''_''
                            @ map (\<lambda>c. if c = CHR '' '' \<or> c = CHR ''/'' then CHR ''_'' else c)
                                (strip (company_name input_data))
                       else strip (title input_data)))"
    by (simp only: dynamic_title_chars)
qed

theorem upload_title_from_stripped_input_witness:
  "Post (upload_url ''https://example.my.salesforce.com'') (upload_headers ''token'')
     (upload_payload ''Partner_Plus_Certificate_Gold_Acme_Corp_EU'' [] None)
     \<in> set (snd (upload_salesforce_download_file (example_env [] 2025)
          \<lparr> file_id = ''068ABC'', company_name = '' Acme Corp/EU'', tier = ''Gold'',
            upload_back_to_salesforce = True, title = ''Partner_Plus_Certificate'' \<rparr>)) \<and>
   dict_get (upload_payload ''Partner_Plus_Certificate_Gold_Acme_Corp_EU'' [] None) ''Title''
     = Inr (JStr ''Partner_Plus_Certificate_Gold_Acme_Corp_EU'')"
proof -
  let ?env = "example_env [] 2025"
  let ?inp = "\<lparr> file_id = ''068ABC'', company_name = '' Acme Corp/EU'', tier = ''Gold'',
            upload_back_to_salesforce = True, title = ''Partner_Plus_Certificate'' \<rparr>"
  let ?R = "Post (upload_url ''https://example.my.salesforce.com'') (upload_headers ''token'')
     (upload_payload ''Partner_Plus_Certificate_Gold_Acme_Corp_EU'' [] None)"
  have s: "strip ''068ABC'' = ''068ABC''" "strip '' Acme Corp/EU'' = ''Acme Corp/EU''"
    "strip ''Gold'' = ''Gold''"
    "strip ''Partner_Plus_Certificate'' = ''Partner_Plus_Certificate''"
    by (simp_all add: strip_def lstrip_def rstrip_def is_space_def)
  have t: "dynamic_title ''Partner_Plus_Certificate'' ''Acme Corp/EU'' ''Gold''
      = ''Partner_Plus_Certificate_Gold_Acme_Corp_EU''"
    by (simp add: dynamic_title_def py_replace_def)
  have i: "?R \<in> set (snd (upload_salesforce_download_file ?env ?inp))"
    using example_pipeline [of ?inp] by (simp add: s t)
  note inst = upload_title_from_stripped_input [of ?inp ?env]
  from inst i have "dict_get (upload_payload ''Partner_Plus_Certificate_Gold_Acme_Corp_EU'' [] None) ''Title''
     = Inr (JStr (if strip (title ?inp) = ''Partner_Plus_Certificate''
                       then ''Partner_Plus_Certificate_'' @ strip (tier ?inp) @ ''_''
                            @ map (\<lambda>c. if c = CHR '' '' \<or> c = CHR ''/'' then CHR ''_'' else c)
                                (strip (company_name ?inp))
                       else strip (title ?inp)))"
    by blast
  then have "dict_get (upload_payload ''Partner_Plus_Certificate_Gold_Acme_Corp_EU'' [] None) ''Title''
     = Inr (JStr ''Partner_Plus_Certificate_Gold_Acme_Corp_EU'')"
    by (simp add: s)
  with i show ?thesis by simp
qed

text \<open>
  C10 as stated fails: a title with white space around it is not used verbatim.
\<close>

theorem padded_title_counterexample:
  "title \<lparr> file_id = ''068ABC'', company_name = ''Acme'', tier = ''Gold'',
           upload_back_to_salesforce = True, title = ''My title '' \<rparr> = ''My title '' \<and>
   snd (upload_salesforce_download_file (example_env [] 2025)
          \<lparr> file_id = ''068ABC'', company_name = ''Acme'', tier = ''Gold'',
            upload_back_to_salesforce = True, title = ''My title '' \<rparr>)
     = [Get (version_data_url ''https://example.my.salesforce.com'' ''068ABC'') (auth_headers ''token'') [],
        Post (upload_url ''https://example.my.salesforce.com'') (upload_headers ''token'')
          (JObj [(''Title'', JStr ''My title''),
                 (''PathOnClient'', JStr ''My title.pptx''),
                 (''VersionData'', JStr []),
                 (''IsMajorVersion'', JBool True)])] \<and>
   ''My title'' \<noteq> ''My title ''"
proof -
  have s: "strip ''068ABC'' = ''068ABC''" "strip ''Acme'' = ''Acme''" "strip ''Gold'' = ''Gold''"
    "strip ''My title '' = ''My title''"
    by (simp_all add: strip_def lstrip_def rstrip_def is_space_def)
  have t: "dynamic_title ''My title'' ''Acme'' ''Gold'' = ''My title''"
    by (simp add: dynamic_title_def)
  show ?thesis
    using example_pipeline [of "\<lparr> file_id = ''068ABC'', company_name = ''Acme'', tier = ''Gold'',
            upload_back_to_salesforce = True, title = ''My title '' \<rparr>"]
    by (simp add: s t upload_payload_new_document)
qed

end
